theory Spec2Isabelle
  imports Complex_Main
begin

section \<open>JavaScript numbers\<close>

text \<open>
  A JavaScript number is a finite value, one of the two infinities, or NaN. Finite
  values are kept as reals: the rounding of IEEE doubles and the sign of zero are not
  part of this model. A value that is \<^verbatim>\<open>undefined\<close> where the code does
  arithmetic on it is \<open>NaN\<close>, which is what \<^verbatim>\<open>ToNumber(undefined)\<close> gives;
  both are falsy for \<^verbatim>\<open>||\<close>.
\<close>

datatype number = Fin real | PosInf | NegInf | NaN

type_synonym Point = "number list"

fun num_add :: "number \<Rightarrow> number \<Rightarrow> number" where
  "num_add NaN _ = NaN"
| "num_add _ NaN = NaN"
| "num_add (Fin a) (Fin b) = Fin (a + b)"
| "num_add PosInf NegInf = NaN"
| "num_add NegInf PosInf = NaN"
| "num_add PosInf _ = PosInf"
| "num_add _ PosInf = PosInf"
| "num_add NegInf _ = NegInf"
| "num_add _ NegInf = NegInf"

fun num_neg :: "number \<Rightarrow> number" where
  "num_neg (Fin a) = Fin (- a)"
| "num_neg PosInf = NegInf"
| "num_neg NegInf = PosInf"
| "num_neg NaN = NaN"

fun num_mul :: "number \<Rightarrow> number \<Rightarrow> number" where
  "num_mul NaN _ = NaN"
| "num_mul _ NaN = NaN"
| "num_mul (Fin a) (Fin b) = Fin (a * b)"
| "num_mul (Fin a) i = (if a = 0 then NaN else if 0 < a then i else num_neg i)"
| "num_mul i (Fin b) = (if b = 0 then NaN else if 0 < b then i else num_neg i)"
| "num_mul PosInf i = i"
| "num_mul NegInf i = num_neg i"

fun num_div :: "number \<Rightarrow> number \<Rightarrow> number" where
  "num_div NaN _ = NaN"
| "num_div _ NaN = NaN"
| "num_div (Fin a) (Fin b) =
     (if b \<noteq> 0 then Fin (a / b)
      else if a = 0 then NaN else if 0 < a then PosInf else NegInf)"
| "num_div (Fin a) _ = Fin 0"
| "num_div i (Fin b) = (if 0 \<le> b then i else num_neg i)"
| "num_div _ _ = NaN"

text \<open>\<^verbatim>\<open>a < b\<close> and \<^verbatim>\<open>a <= b\<close>: false as soon as one side is NaN.\<close>

fun num_lt :: "number \<Rightarrow> number \<Rightarrow> bool" where
  "num_lt NaN _ = False"
| "num_lt _ NaN = False"
| "num_lt (Fin a) (Fin b) = (a < b)"
| "num_lt _ NegInf = False"
| "num_lt PosInf _ = False"
| "num_lt _ PosInf = True"
| "num_lt NegInf _ = True"

fun num_le :: "number \<Rightarrow> number \<Rightarrow> bool" where
  "num_le NaN _ = False"
| "num_le _ NaN = False"
| "num_le a b = (\<not> num_lt b a)"

text \<open>\<^verbatim>\<open>Math.round\<close>: the nearest integer, a half rounded towards plus infinity.\<close>

fun math_round :: "number \<Rightarrow> number" where
  "math_round (Fin a) = Fin (of_int \<lfloor>a + 1 / 2\<rfloor>)"
| "math_round i = i"

text \<open>\<^verbatim>\<open>x || d\<close> on numbers: \<open>d\<close> when \<open>x\<close> is falsy (0 or NaN).\<close>

definition truthy :: "number \<Rightarrow> bool" where
  "truthy x = (x \<noteq> NaN \<and> x \<noteq> Fin 0)"

definition or_num :: "number \<Rightarrow> number \<Rightarrow> number" where
  "or_num x d = (if truthy x then x else d)"

text \<open>\<^verbatim>\<open>x?.f || d\<close> on an optional number: also \<open>d\<close> when the value is absent.\<close>

definition or_default :: "number option \<Rightarrow> number \<Rightarrow> number" where
  "or_default x d = (case x of None \<Rightarrow> d | Some v \<Rightarrow> or_num v d)"

text \<open>\<^verbatim>\<open>pt[i]\<close> read as a number: \<^verbatim>\<open>undefined\<close> out of range.\<close>

definition coord :: "number list \<Rightarrow> nat \<Rightarrow> number" where
  "coord pt i = (if i < length pt then pt ! i else NaN)"

text \<open>\<^verbatim>\<open>xs[i]\<close> on an array of points: \<open>None\<close> is \<^verbatim>\<open>undefined\<close>.\<close>

definition elem :: "'a list \<Rightarrow> nat \<Rightarrow> 'a option" where
  "elem xs i = (if i < length xs then Some (xs ! i) else None)"

section \<open>Data of \<^verbatim>\<open>src/face/facemesh.ts\<close>\<close>

text \<open>A tensor is its shape and its values; only the shape is read by this file.\<close>

record Tensor =
  shape :: "nat list"
  tdata :: "number list"

text \<open>\<^verbatim>\<open>input.shape[i] || 0\<close>\<close>

definition shape_or0 :: "Tensor \<Rightarrow> nat \<Rightarrow> number" where
  "shape_or0 t i = (if i < length (shape t) then Fin (real (shape t ! i)) else Fin 0)"

record BoxCache =
  startPoint :: Point
  endPoint :: Point
  landmarks :: "Point list"
  confidence :: number

type_synonym Matrix = "number list list"

record FaceResult =
  face_id :: nat
  mesh :: "Point list"
  meshRaw :: "Point list"
  box :: "number list"
  boxRaw :: "number list"
  score :: number
  boxScore :: number
  faceScore :: number
  annotations :: "string \<rightharpoonup> Point option list"
  tensor :: "Tensor option"

text \<open>
  The part of \<^verbatim>\<open>Config\<close> that this file reads. The three sections of
  \<^verbatim>\<open>config.face\<close> are read through \<^verbatim>\<open>?.\<close>, so each of them and each of
  their fields may be absent.
\<close>

record FaceDetectorConfig =
  rotation :: "bool option"
  skipTime :: "number option"
  skipFrames :: "number option"
  minConfidence :: "number option"

record FaceMeshConfig =
  enabled :: "bool option"
  modelPath :: "string option"

record FaceIrisConfig =
  irisEnabled :: "bool option"

record FaceConfig =
  detector :: "FaceDetectorConfig option"
  meshConfig :: "FaceMeshConfig option"
  irisConfig :: "FaceIrisConfig option"

record Config =
  skipAllowed :: bool
  debug :: bool
  modelBasePath :: string
  face :: FaceConfig

text \<open>\<^verbatim>\<open>config.face.detector?.f\<close> and its siblings.\<close>

definition detector_opt :: "(FaceDetectorConfig \<Rightarrow> 'a option) \<Rightarrow> Config \<Rightarrow> 'a option" where
  "detector_opt f c = (case detector (face c) of None \<Rightarrow> None | Some d \<Rightarrow> f d)"

definition flag :: "bool option \<Rightarrow> bool" where
  "flag b = (case b of None \<Rightarrow> False | Some v \<Rightarrow> v)"

definition rotationOn :: "Config \<Rightarrow> bool" where
  "rotationOn c = flag (detector_opt rotation c)"

definition meshEnabled :: "Config \<Rightarrow> bool" where
  "meshEnabled c = flag (case meshConfig (face c) of None \<Rightarrow> None | Some m \<Rightarrow> enabled m)"

definition irisOn :: "Config \<Rightarrow> bool" where
  "irisOn c = flag (case irisConfig (face c) of None \<Rightarrow> None | Some m \<Rightarrow> irisEnabled m)"

text \<open>\<^verbatim>\<open>config.face.detector?.skipTime || 0\<close>, \<^verbatim>\<open>... skipFrames || 0\<close>,
  \<^verbatim>\<open>... minConfidence || 1\<close>\<close>

definition skipTimeOf :: "Config \<Rightarrow> number" where
  "skipTimeOf c = or_default (detector_opt skipTime c) (Fin 0)"

definition skipFramesOf :: "Config \<Rightarrow> number" where
  "skipFramesOf c = or_default (detector_opt skipFrames c) (Fin 0)"

definition minConfidenceOf :: "Config \<Rightarrow> number" where
  "minConfidenceOf c = or_default (detector_opt minConfidence c) (Fin 1)"

text \<open>
  The mesh model: \<^verbatim>\<open>modelUrl\<close>, the shapes of its inputs (\<open>None\<close> where
  \<^verbatim>\<open>inputs[i].shape\<close> is absent), and \<^verbatim>\<open>execute\<close>, given here by what
  predict reads of its three output tensors: the values of \<^verbatim>\<open>confidence\<close> and
  the rows of \<^verbatim>\<open>contourCoords\<close> reshaped to three columns.
\<close>

record GraphModel =
  modelUrl :: "string option"
  inputs :: "int list option list"
  execute :: "Tensor \<Rightarrow> number list \<times> Point list"

text \<open>The module-level variables.\<close>

record state =
  boxCache :: "BoxCache list"
  model :: "GraphModel option"
  inputSize :: number
  skipped :: nat
  lastTime :: real

text \<open>
  Their initial values. \<^verbatim>\<open>Number.MAX_SAFE_INTEGER\<close> is \<open>2^53 - 1\<close>. The counter
  is a natural number here: a double counts exactly up to \<open>2^53\<close>.
\<close>

definition init_state :: state where
  "init_state = \<lparr> boxCache = [], model = None, inputSize = Fin 0,
     skipped = 9007199254740991, lastTime = 0 \<rparr>"

text \<open>
  What predict calls of the modules \<^verbatim>\<open>blazeface\<close>, \<^verbatim>\<open>facemeshutil\<close>,
  \<^verbatim>\<open>facemeshcoords\<close>, \<^verbatim>\<open>iris\<close> and \<^verbatim>\<open>env\<close>, none of which is part of
  this file. They are parameters of the model. The detector gives its boxes as
  predict reads them (\<^verbatim>\<open>startPoint.data()\<close>, \<^verbatim>\<open>endPoint.data()\<close>,
  \<^verbatim>\<open>landmarks.array()\<close>, \<^verbatim>\<open>confidence\<close>) and its scale factor.
\<close>

record helpers =
  getBoxes :: "Tensor \<Rightarrow> Config \<Rightarrow> BoxCache list \<times> number list"
  blazeSize :: number
  scaleBoxCoordinates :: "BoxCache \<Rightarrow> number list \<Rightarrow> BoxCache"
  enlargeBox :: "BoxCache \<Rightarrow> number \<Rightarrow> BoxCache"
  squarifyBox :: "BoxCache \<Rightarrow> BoxCache"
  calculateLandmarksBoundingBox :: "Point list \<Rightarrow> BoxCache"
  correctFaceRotation :: "BoxCache \<Rightarrow> Tensor \<Rightarrow> number \<Rightarrow> number \<times> Matrix \<times> Tensor"
  fixedRotationMatrix :: Matrix
  cutBoxFromImageAndResize :: "BoxCache \<Rightarrow> Tensor \<Rightarrow> number \<times> number \<Rightarrow> Tensor"
  getClampedBox :: "BoxCache \<Rightarrow> Tensor \<Rightarrow> number list"
  getRawBox :: "BoxCache \<Rightarrow> Tensor \<Rightarrow> number list"
  transformRawCoords :: "Point list \<Rightarrow> BoxCache \<Rightarrow> number \<Rightarrow> Matrix \<Rightarrow> number \<Rightarrow> Point list"
  augmentIris :: "Point list \<Rightarrow> Tensor \<Rightarrow> Config \<Rightarrow> number \<Rightarrow> Point list"
  blazeFaceLandmarks :: "string \<rightharpoonup> nat"
  meshAnnotations :: "string \<rightharpoonup> nat list"
  kernels :: "string list"

text \<open>What a call does besides returning: the detector runs, the mesh model runs, a line is logged.\<close>

datatype event = DetectorRun | MeshExecute | Log "string list"

definition enlargeFact :: real where
  "enlargeFact = 16 / 10"

section \<open>predict, lines 32 to 51: refresh or reuse the cache\<close>

text \<open>
  \<open>t\<close> is what \<^verbatim>\<open>now()\<close> returns on line 32. The condition of line 34.
\<close>

definition skipTimeFlag :: "Config \<Rightarrow> state \<Rightarrow> real \<Rightarrow> bool" where
  "skipTimeFlag c s t = num_lt (Fin (t - lastTime s)) (skipTimeOf c)"

definition skipFrameFlag :: "Config \<Rightarrow> state \<Rightarrow> bool" where
  "skipFrameFlag c s = num_lt (Fin (real (skipped s))) (skipFramesOf c)"

definition detector_due :: "Config \<Rightarrow> state \<Rightarrow> real \<Rightarrow> bool" where
  "detector_due c s t =
     (\<not> skipAllowed c \<or> \<not> skipTimeFlag c s t \<or> \<not> skipFrameFlag c s \<or> length (boxCache s) = 0)"

text \<open>Line 45, for one box of the detector.\<close>

definition cache_entry :: "helpers \<Rightarrow> number list \<Rightarrow> BoxCache \<Rightarrow> BoxCache" where
  "cache_entry h sf b =
     squarifyBox h (enlargeBox h (scaleBoxCoordinates h b sf) (Fin (sqrt enlargeFact)))"

text \<open>
  Lines 32 to 51. \<open>t0\<close> is the clock on line 32 and \<open>t1\<close> the clock on line 36, after
  the detector has answered. The calls of \<^verbatim>\<open>tf.dispose\<close> free memory and change
  no value.
\<close>

definition refresh :: "helpers \<Rightarrow> Config \<Rightarrow> Tensor \<Rightarrow> real \<Rightarrow> real \<Rightarrow> state \<Rightarrow> state \<times> event list" where
  "refresh h c input t0 t1 s =
     (if detector_due c s t0 then
        (let possibleBoxes = getBoxes h input c in
         (s\<lparr> lastTime := t1,
             boxCache := map (cache_entry h (snd possibleBoxes)) (fst possibleBoxes),
             skipped := 0 \<rparr>, [DetectorRun]))
      else (s\<lparr> skipped := skipped s + 1 \<rparr>, []))"

section \<open>predict, lines 52 to 123: one face per cached box\<close>

text \<open>Lines 59 to 69.\<close>

definition init_face :: "nat \<Rightarrow> FaceResult" where
  "init_face i = \<lparr> face_id = i, mesh = [], meshRaw = [],
     box = [Fin 0, Fin 0, Fin 0, Fin 0], boxRaw = [Fin 0, Fin 0, Fin 0, Fin 0],
     score = Fin 0, boxScore = Fin 0, faceScore = Fin 0,
     annotations = Map.empty, tensor = None \<rparr>"

text \<open>Line 71: the three conditions under which the crop is rotated.\<close>

definition rotate_crop :: "helpers \<Rightarrow> Config \<Rightarrow> bool" where
  "rotate_crop h c = (rotationOn c \<and> meshEnabled c \<and> ''rotatewithoffset'' \<in> set (kernels h))"

text \<open>Lines 57, 58 and 71 to 76: the angle, the rotation matrix and the crop.\<close>

definition face_crop :: "helpers \<Rightarrow> Config \<Rightarrow> number \<Rightarrow> Tensor \<Rightarrow> BoxCache \<Rightarrow> number \<times> Matrix \<times> Tensor" where
  "face_crop h c isz input b =
     (if rotate_crop h c then correctFaceRotation h b input isz
      else (Fin 0, fixedRotationMatrix h,
            cutBoxFromImageAndResize h b input
              (if meshEnabled c then (isz, isz) else (blazeSize h, blazeSize h))))"

text \<open>\<^verbatim>\<open>Math.round(100 * x) / 100\<close>\<close>

definition round2 :: "number \<Rightarrow> number" where
  "round2 x = num_div (math_round (num_mul (Fin 100) x)) (Fin 100)"

text \<open>Line 81: \<^verbatim>\<open>Math.round(100 * x || 0) / 100\<close>\<close>

definition round2_or0 :: "number \<Rightarrow> number" where
  "round2_or0 x = num_div (math_round (or_num (num_mul (Fin 100) x) (Fin 0))) (Fin 100)"

text \<open>Lines 83 to 86, for one landmark of the detector.\<close>

definition detector_point :: "helpers \<Rightarrow> BoxCache \<Rightarrow> Point \<Rightarrow> Point" where
  "detector_point h b pt =
     [num_add (num_div (num_add (coord (startPoint b) 0) (coord (endPoint b) 0)) (Fin 2))
        (num_div (num_mul (num_add (coord (endPoint b) 0) (coord (startPoint b) 0)) (coord pt 0))
           (blazeSize h)),
      num_add (num_div (num_add (coord (startPoint b) 1) (coord (endPoint b) 1)) (Fin 2))
        (num_div (num_mul (num_add (coord (endPoint b) 1) (coord (startPoint b) 1)) (coord pt 1))
           (blazeSize h))]"

text \<open>Lines 87 and 103, for one point of the mesh.\<close>

definition raw_point :: "Tensor \<Rightarrow> number \<Rightarrow> Point \<Rightarrow> Point" where
  "raw_point input isz pt =
     [num_div (coord pt 0) (shape_or0 input 2),
      num_div (coord pt 1) (shape_or0 input 1),
      num_div (or_num (coord pt 2) (Fin 0)) isz]"

text \<open>Line 105: the box around a computed mesh.\<close>

definition mesh_box :: "helpers \<Rightarrow> Point list \<Rightarrow> BoxCache" where
  "mesh_box h m = squarifyBox h (enlargeBox h (calculateLandmarksBoundingBox h m) (Fin enlargeFact))"

text \<open>
  One turn of the loop of line 55, for the box \<open>b\<close> at index \<open>i\<close>. It gives the face,
  the box \<open>b\<close> as the turn leaves it (line 99 writes to it), the box pushed to
  \<^verbatim>\<open>newCache\<close> if one is, and what happened.
\<close>

definition process_box ::
  "helpers \<Rightarrow> Config \<Rightarrow> GraphModel option \<Rightarrow> number \<Rightarrow> Tensor \<Rightarrow> nat \<Rightarrow> BoxCache
     \<Rightarrow> FaceResult \<times> BoxCache \<times> BoxCache option \<times> event list" where
  "process_box h c mdl isz input i b =
     (let (angle, rotationMatrix, crop) = face_crop h c isz input b;
          f = (init_face i)\<lparr> tensor := Some crop, boxScore := round2 (confidence b) \<rparr>
      in
      if \<not> meshEnabled c then
        (let m = map (detector_point h b) (landmarks b) in
         (f\<lparr> box := getClampedBox h b input,
             boxRaw := getRawBox h b input,
             boxScore := round2_or0 (confidence b),
             score := round2_or0 (confidence b),
             mesh := m,
             meshRaw := map (raw_point input isz) m,
             annotations := (\<lambda>k. map_option (\<lambda>j. [elem m j]) (blazeFaceLandmarks h k)) \<rparr>,
          b, None, []))
      else
        (case mdl of
           None \<Rightarrow>
             (f, b, None,
              if debug c then [Log [''face mesh detection requested, but model is not loaded'']]
              else [])
         | Some g \<Rightarrow>
             (let (faceConfidence, rawCoords) = execute g crop;
                  fs = round2 (coord faceConfidence 0)
              in
              if num_lt fs (minConfidenceOf c) then
                (f\<lparr> faceScore := fs \<rparr>, b\<lparr> confidence := fs \<rparr>, None, [MeshExecute])
              else
                (let rawCoords' = (if irisOn c then augmentIris h rawCoords crop c isz else rawCoords);
                     m = transformRawCoords h rawCoords' b angle rotationMatrix isz;
                     b' = mesh_box h m
                 in
                 (f\<lparr> faceScore := fs,
                     mesh := m,
                     meshRaw := map (raw_point input isz) m,
                     annotations := (\<lambda>k. map_option (map (elem m)) (meshAnnotations h k)),
                     box := getClampedBox h b' input,
                     boxRaw := getRawBox h b' input,
                     score := fs \<rparr>,
                  b, Some b', [MeshExecute])))))"

text \<open>
  The loop of lines 55 to 121 from index \<open>i\<close> on: the faces, the boxes of the cache as
  the loop leaves them, \<^verbatim>\<open>newCache\<close>, and what happened, each in the order of
  the cache.
\<close>

fun process_boxes ::
  "helpers \<Rightarrow> Config \<Rightarrow> GraphModel option \<Rightarrow> number \<Rightarrow> Tensor \<Rightarrow> nat \<Rightarrow> BoxCache list
     \<Rightarrow> FaceResult list \<times> BoxCache list \<times> BoxCache list \<times> event list" where
  "process_boxes h c mdl isz input i [] = ([], [], [], [])"
| "process_boxes h c mdl isz input i (b # bs) =
     (let (f, b', kept, ev) = process_box h c mdl isz input i b;
          (fs, bs', newCache, evs) = process_boxes h c mdl isz input (Suc i) bs
      in (f # fs, b' # bs',
          (case kept of None \<Rightarrow> newCache | Some nb \<Rightarrow> nb # newCache),
          ev @ evs))"

record outcome =
  faces :: "FaceResult list"
  processed :: "BoxCache list"
  state_after :: state
  trace :: "event list"

text \<open>
  predict. \<open>processed\<close> is the cache that the loop went through, as the loop
  left its boxes; line 122 then replaces the cache by a copy of \<^verbatim>\<open>newCache\<close>.
\<close>

definition predict :: "helpers \<Rightarrow> Config \<Rightarrow> Tensor \<Rightarrow> real \<Rightarrow> real \<Rightarrow> state \<Rightarrow> outcome" where
  "predict h c input t0 t1 s =
     (let (s1, ev1) = refresh h c input t0 t1 s;
          (fs, bs', newCache, ev2) =
             process_boxes h c (model s1) (inputSize s1) input 0 (boxCache s1)
      in \<lparr> faces = fs, processed = bs', state_after = s1\<lparr> boxCache := newCache \<rparr>,
           trace = ev1 @ ev2 \<rparr>)"

section \<open>load, lines 126 to 136\<close>

text \<open>
  \<^verbatim>\<open>tf.loadGraphModel\<close> either rejects or gives a value, which line 130 tests
  for being null. \<^verbatim>\<open>join\<close> and \<^verbatim>\<open>env.initial\<close> are parameters.
\<close>

datatype fetched = Rejects | Gives "GraphModel option"

datatype load_error = LoadRejected | TypeError

definition url_ok :: "GraphModel \<Rightarrow> bool" where
  "url_ok g = (case modelUrl g of None \<Rightarrow> False | Some u \<Rightarrow> u \<noteq> [])"

definition show_opt :: "string option \<Rightarrow> string" where
  "show_opt x = (case x of None \<Rightarrow> ''undefined'' | Some u \<Rightarrow> u)"

definition meshModelPath :: "Config \<Rightarrow> string option" where
  "meshModelPath c = (case meshConfig (face c) of None \<Rightarrow> None | Some m \<Rightarrow> modelPath m)"

text \<open>Lines 133 to 135, on the value of \<^verbatim>\<open>model\<close> after line 132.\<close>

definition read_input_size :: "GraphModel option \<Rightarrow> load_error + number" where
  "read_input_size m =
     (case m of
        None \<Rightarrow> Inl TypeError
      | Some g \<Rightarrow>
          (case inputs g of
             [] \<Rightarrow> Inl TypeError
           | sh # _ \<Rightarrow>
               (let isz = (case sh of None \<Rightarrow> Fin 0
                            | Some dims \<Rightarrow> if 2 < length dims then Fin (of_int (dims ! 2)) else NaN)
                in Inr (if isz = Fin (- 1) then Fin 64 else isz))))"

record loaded =
  load_state :: state
  load_trace :: "event list"
  load_result :: "load_error + GraphModel"

definition finish_load :: "state \<Rightarrow> event list \<Rightarrow> loaded" where
  "finish_load s ev =
     (case read_input_size (model s) of
        Inl e \<Rightarrow> \<lparr> load_state = s, load_trace = ev, load_result = Inl e \<rparr>
      | Inr isz \<Rightarrow>
          \<lparr> load_state = s\<lparr> inputSize := isz \<rparr>, load_trace = ev,
            load_result = (case model s of None \<Rightarrow> Inl TypeError | Some g \<Rightarrow> Inr g) \<rparr>)"

definition load ::
  "bool \<Rightarrow> (string \<Rightarrow> fetched) \<Rightarrow> (string \<Rightarrow> string \<Rightarrow> string) \<Rightarrow> Config \<Rightarrow> state \<Rightarrow> loaded" where
  "load initial loadGraphModel join c s =
     (let s0 = (if initial then s\<lparr> model := None \<rparr> else s) in
      case model s0 of
        None \<Rightarrow>
          (case loadGraphModel (join (modelBasePath c)
                   (case meshModelPath c of None \<Rightarrow> [] | Some p \<Rightarrow> p)) of
             Rejects \<Rightarrow> \<lparr> load_state = s0, load_trace = [], load_result = Inl LoadRejected \<rparr>
           | Gives m \<Rightarrow>
               finish_load (s0\<lparr> model := m \<rparr>)
                 (case m of
                    None \<Rightarrow> [Log [''load model failed:'', show_opt (meshModelPath c)]]
                  | Some g \<Rightarrow>
                      if \<not> url_ok g then [Log [''load model failed:'', show_opt (meshModelPath c)]]
                      else if debug c then [Log [''load model:'', show_opt (modelUrl g)]]
                      else []))
      | Some g \<Rightarrow>
          finish_load s0 (if debug c then [Log [''cached model:'', show_opt (modelUrl g)]] else []))"

section \<open>Sequences of calls\<close>

text \<open>
  A caller of this module calls \<^verbatim>\<open>load\<close> and \<^verbatim>\<open>predict\<close> in some order,
  starting from the initial values of the module's variables. Beside the state,
  \<open>reuses\<close> counts the calls of predict since the detector last ran, \<open>fresh\<close> says
  whether the detector ran in the last call of predict, and \<open>last_config\<close> is the
  configuration of that call.
\<close>

datatype call =
  Predict Config Tensor real real
| Load bool "string \<Rightarrow> fetched" "string \<Rightarrow> string \<Rightarrow> string" Config

record tracked =
  current :: state
  reuses :: nat
  fresh :: bool
  last_config :: "Config option"

fun step :: "helpers \<Rightarrow> tracked \<Rightarrow> call \<Rightarrow> tracked" where
  "step h k (Predict c input t0 t1) =
     (let r = predict h c input t0 t1 (current k);
          ran = (DetectorRun \<in> set (trace r))
      in \<lparr> current = state_after r, reuses = (if ran then 0 else reuses k + 1),
           fresh = ran, last_config = Some c \<rparr>)"
| "step h k (Load initial loadGraphModel join c) =
     k\<lparr> current := load_state (load initial loadGraphModel join c (current k)) \<rparr>"

definition run :: "helpers \<Rightarrow> call list \<Rightarrow> tracked" where
  "run h cs = foldl (step h)
     \<lparr> current = init_state, reuses = 0, fresh = False, last_config = None \<rparr> cs"

text \<open>Whether a face passed the threshold of line 98.\<close>

definition passed :: "Config \<Rightarrow> FaceResult \<Rightarrow> bool" where
  "passed c f = (\<not> num_lt (faceScore f) (minConfidenceOf c))"

section \<open>Sample values\<close>

text \<open>
  One detector box, helpers that leave boxes and coordinates as they are, a mesh model
  that answers with confidence \<open>q\<close> and one point, and a configuration with
  \<^verbatim>\<open>skipFrames\<close> \<open>n\<close> and \<^verbatim>\<open>mesh.enabled\<close> \<open>me\<close>.
\<close>

definition sample_box :: "number \<Rightarrow> BoxCache" where
  "sample_box q = \<lparr> startPoint = [Fin 10, Fin 20], endPoint = [Fin 30, Fin 40],
     landmarks = [[Fin 1, Fin 2]], confidence = q \<rparr>"

definition sample_helpers :: "number \<Rightarrow> helpers" where
  "sample_helpers q = \<lparr>
     getBoxes = (\<lambda>t c. ([sample_box q], [Fin 1, Fin 1])),
     blazeSize = Fin 128,
     scaleBoxCoordinates = (\<lambda>b f. b),
     enlargeBox = (\<lambda>b f. b),
     squarifyBox = (\<lambda>b. b),
     calculateLandmarksBoundingBox = (\<lambda>m. \<lparr> startPoint = [Fin 1, Fin 2], endPoint = [Fin 1, Fin 2],
        landmarks = m, confidence = NaN \<rparr>),
     correctFaceRotation = (\<lambda>b t z. (Fin 1, [[Fin 0]], t)),
     fixedRotationMatrix = [[Fin 1, Fin 0, Fin 0], [Fin 0, Fin 1, Fin 0], [Fin 0, Fin 0, Fin 1]],
     cutBoxFromImageAndResize = (\<lambda>b t z. t\<lparr> shape := [1, 2, 2, 3] \<rparr>),
     getClampedBox = (\<lambda>b t. startPoint b @ endPoint b),
     getRawBox = (\<lambda>b t. startPoint b @ endPoint b),
     transformRawCoords = (\<lambda>raw b a m z. raw),
     augmentIris = (\<lambda>raw t c z. raw),
     blazeFaceLandmarks = Map.empty,
     meshAnnotations = Map.empty,
     kernels = [] \<rparr>"

definition sample_model :: "real \<Rightarrow> GraphModel" where
  "sample_model q = \<lparr> modelUrl = Some ''facemesh.json'',
     inputs = [Some [1, 192, 192, 3]],
     execute = (\<lambda>t. ([Fin q], [[Fin 100, Fin 50, Fin 192]])) \<rparr>"

definition sample_config :: "real \<Rightarrow> bool \<Rightarrow> Config" where
  "sample_config n me = \<lparr> skipAllowed = True, debug = True, modelBasePath = [],
     face = \<lparr> detector = Some \<lparr> rotation = Some False, skipTime = Some (Fin 1000),
                skipFrames = Some (Fin n), minConfidence = Some (Fin (1 / 5)) \<rparr>,
             meshConfig = Some \<lparr> enabled = Some me, modelPath = Some ''facemesh.json'' \<rparr>,
             irisConfig = None \<rparr> \<rparr>"

definition sample_input :: Tensor where
  "sample_input = \<lparr> shape = [1, 100, 200, 3], tdata = [] \<rparr>"

text \<open>The module's variables after a successful load of \<open>sample_model q\<close>.\<close>

definition loaded_state :: "real \<Rightarrow> state" where
  "loaded_state q = init_state\<lparr> model := Some (sample_model q), inputSize := Fin 192 \<rparr>"

text \<open>
  A state with \<open>sample_model q\<close> loaded and one box in the cache, the detector
  having last run at time 6.
\<close>

definition warm_state :: "real \<Rightarrow> state" where
  "warm_state q = (loaded_state q)\<lparr> boxCache := [sample_box NaN], skipped := 0, lastTime := 6 \<rparr>"

text \<open>The cache that the loop of line 55 goes through: the one lines 32 to 51 leave.\<close>

definition working_cache :: "helpers \<Rightarrow> Config \<Rightarrow> Tensor \<Rightarrow> real \<Rightarrow> real \<Rightarrow> state \<Rightarrow> BoxCache list" where
  "working_cache h c input t0 t1 s = boxCache (fst (refresh h c input t0 t1 s))"

text \<open>What one turn of the loop does besides computing, by the branch it takes.\<close>

definition box_events :: "Config \<Rightarrow> GraphModel option \<Rightarrow> event list" where
  "box_events c mdl =
     (if \<not> meshEnabled c then []
      else case mdl of
        None \<Rightarrow> if debug c then [Log [''face mesh detection requested, but model is not loaded'']] else []
      | Some g \<Rightarrow> [MeshExecute])"

text \<open>A load of \<open>sample_model (1 / 2)\<close> and two calls of predict, at times 5 and 7.\<close>

definition sample_calls :: "call list" where
  "sample_calls =
     [Load False (\<lambda>u. Gives (Some (sample_model (1 / 2)))) (@) (sample_config 1 True),
      Predict (sample_config 1 True) sample_input 5 6,
      Predict (sample_config 1 True) sample_input 7 8]"


text \<open>A configuration and helpers under which line 71 takes the rotating branch.\<close>

definition rotating_config :: Config where
  "rotating_config = \<lparr> skipAllowed = False, debug = False, modelBasePath = [],
     face = \<lparr> detector = Some \<lparr> rotation = Some True, skipTime = None,
                skipFrames = None, minConfidence = None \<rparr>,
             meshConfig = Some \<lparr> enabled = Some True, modelPath = None \<rparr>,
             irisConfig = None \<rparr> \<rparr>"

definition rotating_helpers :: helpers where
  "rotating_helpers = (sample_helpers (Fin 1))\<lparr> kernels := [''rotatewithoffset''] \<rparr>"

text \<open>
  A detector that finds two boxes, with confidences 0.9 and 0.1, a plain crop that
  carries the confidence of its box, and a mesh model that answers with the
  confidence it finds in the crop: the first box passes the threshold 0.2 of
  \<open>sample_config\<close>, the second does not.
\<close>

definition echo_helpers :: helpers where
  "echo_helpers = (sample_helpers (Fin (9 / 10)))\<lparr>
     getBoxes := (\<lambda>t c. ([sample_box (Fin (9 / 10)), sample_box (Fin (1 / 10))], [Fin 1, Fin 1])),
     cutBoxFromImageAndResize := (\<lambda>b t z. t\<lparr> tdata := [confidence b] \<rparr>) \<rparr>"

definition echo_model :: GraphModel where
  "echo_model = \<lparr> modelUrl = Some ''facemesh.json'',
     inputs = [Some [1, 192, 192, 3]],
     execute = (\<lambda>t. (tdata t, [[Fin 100, Fin 50, Fin 192]])) \<rparr>"

definition echo_state :: state where
  "echo_state = init_state\<lparr> model := Some echo_model, inputSize := Fin 192 \<rparr>"

section \<open>Auxiliary facts\<close>

lemmas sample_defs = sample_box_def sample_helpers_def sample_model_def sample_config_def
  sample_input_def loaded_state_def init_state_def warm_state_def sample_calls_def
  rotating_config_def rotating_helpers_def

lemmas load_defs = load_def finish_load_def read_input_size_def url_ok_def show_opt_def
  meshModelPath_def

lemmas config_defs = detector_opt_def flag_def rotationOn_def meshEnabled_def irisOn_def
  skipTimeOf_def skipFramesOf_def minConfidenceOf_def or_default_def or_num_def truthy_def

lemmas predict_defs = predict_def refresh_def detector_due_def skipTimeFlag_def skipFrameFlag_def
  process_box_def face_crop_def rotate_crop_def init_face_def round2_def round2_or0_def
  raw_point_def mesh_box_def cache_entry_def coord_def elem_def shape_or0_def detector_point_def
  passed_def

lemma process_box_no_detector:
  "process_box h c mdl isz input i b = (f, b', k, ev) \<Longrightarrow> DetectorRun \<notin> set ev"
  by (auto simp: process_box_def Let_def split: prod.splits option.splits if_splits)

lemma process_boxes_no_detector:
  "process_boxes h c mdl isz input i bs = (fs, bs', nc, ev) \<Longrightarrow> DetectorRun \<notin> set ev"
proof (induction bs arbitrary: i fs bs' nc ev)
  case Nil
  then show ?case by simp
next
  case (Cons b bs)
  then show ?case
    by (auto split: prod.splits dest: process_box_no_detector)
qed



lemma trace_predict_detector:
  "(DetectorRun \<in> set (trace (predict h c input t0 t1 s))) = detector_due c s t0"
  by (auto simp: predict_def refresh_def Let_def split: prod.splits
      dest: process_boxes_no_detector)


lemma skipped_after_predict:
  "skipped (state_after (predict h c input t0 t1 s)) =
     (if detector_due c s t0 then 0 else skipped s + 1)"
  by (simp add: predict_def refresh_def Let_def split: prod.splits)


lemma refresh_keeps: "model (fst (refresh h c input t0 t1 s)) = model s"
  "inputSize (fst (refresh h c input t0 t1 s)) = inputSize s"
  by (simp_all add: refresh_def Let_def)

lemma predict_unfold:
  "predict h c input t0 t1 s =
     (case process_boxes h c (model s) (inputSize s) input 0 (working_cache h c input t0 t1 s) of
        (fs, bs', nc, ev) \<Rightarrow>
          \<lparr> faces = fs, processed = bs',
            state_after = (fst (refresh h c input t0 t1 s))\<lparr> boxCache := nc \<rparr>,
            trace = snd (refresh h c input t0 t1 s) @ ev \<rparr>)"
proof -
  obtain s1 ev1 where r: "refresh h c input t0 t1 s = (s1, ev1)"
    by force
  from refresh_keeps [of h c input t0 t1 s] r
  have "model s1 = model s" "inputSize s1 = inputSize s"
    by simp_all
  then show ?thesis
    by (simp add: predict_def working_cache_def r split: prod.splits)
qed

lemma process_boxes_length:
  "process_boxes h c mdl isz input i bs = (fs, bs', nc, ev) \<Longrightarrow>
     length fs = length bs \<and> length bs' = length bs"
  by (induction bs arbitrary: i fs bs' nc ev) (auto split: prod.splits)

lemma process_boxes_nth:
  "process_boxes h c mdl isz input i bs = (fs, bs', nc, ev) \<Longrightarrow> j < length bs \<Longrightarrow>
     \<exists>k e. process_box h c mdl isz input (i + j) (bs ! j) = (fs ! j, bs' ! j, k, e)"
proof (induction bs arbitrary: i j fs bs' nc ev)
  case Nil
  then show ?case by simp
next
  case (Cons b bs)
  obtain f b1 k1 e1 where pb: "process_box h c mdl isz input i b = (f, b1, k1, e1)"
    by (metis prod_cases4)
  obtain gs cs n2 e2 where ps: "process_boxes h c mdl isz input (Suc i) bs = (gs, cs, n2, e2)"
    by (metis prod_cases4)
  from Cons.prems(1) pb ps have fs: "fs = f # gs" and bs': "bs' = b1 # cs"
    by simp_all
  show ?case
  proof (cases j)
    case 0
    with pb fs bs' show ?thesis by simp
  next
    case (Suc j')
    with Cons.prems(2) have "j' < length bs" by simp
    from Cons.IH [OF ps this] Suc fs bs' show ?thesis by simp
  qed
qed

lemma process_box_kept:
  "process_box h c mdl isz input i b = (f, b', k, ev) \<Longrightarrow>
     k = (if meshEnabled c \<and> mdl \<noteq> None \<and> passed c f then Some (mesh_box h (mesh f)) else None)"
  by (auto simp: process_box_def Let_def passed_def split: prod.splits option.splits if_splits)

lemma process_boxes_newCache:
  "process_boxes h c mdl isz input i bs = (fs, bs', nc, ev) \<Longrightarrow>
     nc = (if meshEnabled c \<and> mdl \<noteq> None
           then map (\<lambda>f. mesh_box h (mesh f)) (filter (passed c) fs) else [])"
proof (induction bs arbitrary: i fs bs' nc ev)
  case Nil
  then show ?case by simp
next
  case (Cons b bs)
  obtain f b1 k1 e1 where pb: "process_box h c mdl isz input i b = (f, b1, k1, e1)"
    by (metis prod_cases4)
  obtain gs cs n2 e2 where ps: "process_boxes h c mdl isz input (Suc i) bs = (gs, cs, n2, e2)"
    by (metis prod_cases4)
  from Cons.prems pb ps have fs: "fs = f # gs"
    and nc: "nc = (case k1 of None \<Rightarrow> n2 | Some nb \<Rightarrow> nb # n2)"
    by simp_all
  from Cons.IH [OF ps] process_box_kept [OF pb] fs nc show ?case
    by auto
qed

lemma boxCache_after_predict:
  "boxCache (state_after (predict h c input t0 t1 s)) =
     (if meshEnabled c \<and> model s \<noteq> None
      then map (\<lambda>f. mesh_box h (mesh f)) (filter (passed c) (faces (predict h c input t0 t1 s)))
      else [])"
  by (auto simp: predict_unfold split: prod.splits dest: process_boxes_newCache)

lemma faces_length: "length (faces (predict h c input t0 t1 s)) = length (working_cache h c input t0 t1 s)"
  and processed_length: "length (processed (predict h c input t0 t1 s)) = length (working_cache h c input t0 t1 s)"
  by (auto simp: predict_unfold split: prod.splits dest: process_boxes_length)

lemma predict_nth:
  "j < length (working_cache h c input t0 t1 s) \<Longrightarrow>
     \<exists>k e. process_box h c (model s) (inputSize s) input j (working_cache h c input t0 t1 s ! j) =
       (faces (predict h c input t0 t1 s) ! j, processed (predict h c input t0 t1 s) ! j, k, e)"
  using process_boxes_nth [of h c "model s" "inputSize s" input 0 "working_cache h c input t0 t1 s" _ _ _ _ j]
  by (auto simp: predict_unfold split: prod.splits)

lemma process_box_face:
  "process_box h c mdl isz input i b = (f, b', k, ev) \<Longrightarrow>
     face_id f = i
     \<and> boxScore f = (if meshEnabled c then round2 (confidence b) else round2_or0 (confidence b))
     \<and> tensor f = Some (snd (snd (face_crop h c isz input b)))
     \<and> meshRaw f = map (raw_point input isz) (mesh f)"
  by (auto simp: process_box_def Let_def init_face_def split: prod.splits option.splits if_splits)

lemma round2_or0_eq: "round2_or0 x = (if x = NaN then Fin 0 else round2 x)"
  by (cases x) (auto simp: round2_or0_def round2_def or_num_def truthy_def)

lemma faces_in_set:
  assumes "f \<in> set (faces (predict h c input t0 t1 s))"
  shows "\<exists>j b b' k e. process_box h c (model s) (inputSize s) input j b = (f, b', k, e)"
proof -
  from assms obtain j where j: "j < length (faces (predict h c input t0 t1 s))"
    and f: "f = faces (predict h c input t0 t1 s) ! j"
    by (auto simp: in_set_conv_nth)
  from j have "j < length (working_cache h c input t0 t1 s)"
    by (simp add: faces_length)
  from predict_nth [OF this] f show ?thesis by blast
qed

lemma working_cache_due:
  "detector_due c s t0 \<Longrightarrow>
     working_cache h c input t0 t1 s =
       map (cache_entry h (snd (getBoxes h input c))) (fst (getBoxes h input c))"
  by (simp add: working_cache_def refresh_def Let_def)

lemma finish_load_keeps:
  "boxCache (load_state (finish_load s ev)) = boxCache s"
  "skipped (load_state (finish_load s ev)) = skipped s"
  by (simp_all add: finish_load_def split: sum.splits)

lemma load_keeps_cache: "boxCache (load_state (load initial lg jn c s)) = boxCache s"
  by (simp add: load_def Let_def finish_load_keeps split: option.splits fetched.splits)

lemma process_box_events:
  "process_box h c mdl isz input i b = (f, b', k, ev) \<Longrightarrow> ev = box_events c mdl"
  by (auto simp: process_box_def box_events_def Let_def split: prod.splits option.splits if_splits)

lemma process_boxes_events:
  "process_boxes h c mdl isz input i bs = (fs, bs', nc, ev) \<Longrightarrow>
     ev = concat (replicate (length bs) (box_events c mdl))"
proof (induction bs arbitrary: i fs bs' nc ev)
  case Nil
  then show ?case by simp
next
  case (Cons b bs)
  obtain f b1 k1 e1 where pb: "process_box h c mdl isz input i b = (f, b1, k1, e1)"
    by (metis prod_cases4)
  obtain gs cs n2 e2 where ps: "process_boxes h c mdl isz input (Suc i) bs = (gs, cs, n2, e2)"
    by (metis prod_cases4)
  from Cons.prems pb ps have "ev = e1 @ e2" by simp
  with Cons.IH [OF ps] process_box_events [OF pb] show ?case by simp
qed

lemma trace_predict:
  "trace (predict h c input t0 t1 s) =
     (if detector_due c s t0 then [DetectorRun] else [])
     @ concat (replicate (length (working_cache h c input t0 t1 s)) (box_events c (model s)))"
proof -
  have "snd (refresh h c input t0 t1 s) = (if detector_due c s t0 then [DetectorRun] else [])"
    by (simp add: refresh_def Let_def)
  then show ?thesis
    by (auto simp: predict_unfold split: prod.splits dest: process_boxes_events)
qed

lemma process_box_low:
  assumes "meshEnabled c" and "mdl = Some g"
    and "process_box h c mdl isz input i b = (f, b', k, ev)"
  shows "faceScore f = round2 (coord (fst (execute g (snd (snd (face_crop h c isz input b))))) 0)"
    and "\<not> passed c f \<Longrightarrow>
           b' = b\<lparr> confidence := faceScore f \<rparr> \<and> k = None \<and> mesh f = [] \<and> meshRaw f = []
           \<and> annotations f = Map.empty \<and> score f = Fin 0"
  using assms
  by (auto simp: process_box_def Let_def init_face_def passed_def split: prod.splits if_splits)

lemma num_lt_NaN_right: "\<not> num_lt x NaN"
  by (cases x) auto

lemma below_minConfidence:
  assumes "detector_opt minConfidence c = Some mc" and "num_lt x mc"
  shows "num_lt x (minConfidenceOf c)"
proof (cases "truthy mc")
  case True
  with assms show ?thesis
    by (simp add: minConfidenceOf_def or_default_def or_num_def)
next
  case False
  with assms(2) have "mc = Fin 0"
    by (cases mc) (auto simp: truthy_def num_lt_NaN_right)
  with assms have "num_lt x (Fin 1)"
    by (cases x) auto
  with False assms(1) show ?thesis
    by (simp add: minConfidenceOf_def or_default_def or_num_def)
qed

lemma load_keeps_skipped: "skipped (load_state (load initial lg jn c s)) = skipped s"
  by (simp add: load_def Let_def finish_load_keeps split: option.splits fetched.splits)

lemma step_invariant:
  assumes "case last_config k of
             None \<Rightarrow> boxCache (current k) = []
           | Some c \<Rightarrow> reuses k = skipped (current k)
               \<and> (fresh k \<or> (0 < reuses k \<and> num_lt (Fin (real (reuses k) - 1)) (skipFramesOf c)))"
  shows "case last_config (step h k a) of
             None \<Rightarrow> boxCache (current (step h k a)) = []
           | Some c \<Rightarrow> reuses (step h k a) = skipped (current (step h k a))
               \<and> (fresh (step h k a)
                  \<or> (0 < reuses (step h k a)
                     \<and> num_lt (Fin (real (reuses (step h k a)) - 1)) (skipFramesOf c)))"
proof (cases a)
  case (Predict c input t0 t1)
  show ?thesis
  proof (cases "detector_due c (current k) t0")
    case True
    with Predict show ?thesis
      by (simp add: Let_def trace_predict_detector skipped_after_predict)
  next
    case False
    then have sf: "num_lt (Fin (real (skipped (current k)))) (skipFramesOf c)"
      and ne: "boxCache (current k) \<noteq> []"
      by (simp_all add: detector_due_def skipFrameFlag_def)
    from ne assms obtain c0 where "last_config k = Some c0"
      by (cases "last_config k") auto
    with assms have "reuses k = skipped (current k)" by simp
    with Predict False sf show ?thesis
      by (simp add: Let_def trace_predict_detector skipped_after_predict)
  qed
next
  case (Load initial lg jn c)
  with assms show ?thesis
    by (cases "last_config k") (auto simp: load_keeps_cache load_keeps_skipped)
qed

lemma run_invariant:
  "case last_config (run h cs) of
     None \<Rightarrow> boxCache (current (run h cs)) = []
   | Some c \<Rightarrow> reuses (run h cs) = skipped (current (run h cs))
       \<and> (fresh (run h cs)
          \<or> (0 < reuses (run h cs) \<and> num_lt (Fin (real (reuses (run h cs)) - 1)) (skipFramesOf c)))"
proof (induction cs rule: rev_induct)
  case Nil
  show ?case by (simp add: run_def init_state_def)
next
  case (snoc a cs)
  have unroll: "run h (cs @ [a]) = step h (run h cs) a"
    by (simp add: run_def)
  show ?case
    unfolding unroll by (rule step_invariant [OF snoc.IH])
qed

lemma process_box_mesh:
  assumes "meshEnabled c" and "mdl = Some g"
    and "process_box h c mdl isz input i b = (f, b', k, ev)" and "passed c f"
  shows "mesh f =
     transformRawCoords h
       (if irisOn c
        then augmentIris h (snd (execute g (snd (snd (face_crop h c isz input b)))))
               (snd (snd (face_crop h c isz input b))) c isz
        else snd (execute g (snd (snd (face_crop h c isz input b)))))
       b (fst (face_crop h c isz input b)) (fst (snd (face_crop h c isz input b))) isz"
  using assms
  by (auto simp: process_box_def Let_def init_face_def passed_def split: prod.splits if_splits)


lemma faceScore_predict:
  assumes "meshEnabled c" and "model s = Some g"
    and "i < length (working_cache h c input t0 t1 s)"
  shows "faceScore (faces (predict h c input t0 t1 s) ! i) =
     round2 (coord (fst (execute g (snd (snd (face_crop h c (inputSize s) input
        (working_cache h c input t0 t1 s ! i)))))) 0)"
proof -
  from predict_nth [OF assms(3)] obtain k e where
    "process_box h c (model s) (inputSize s) input i (working_cache h c input t0 t1 s ! i) =
       (faces (predict h c input t0 t1 s) ! i, processed (predict h c input t0 t1 s) ! i, k, e)"
    by blast
  from process_box_low(1) [OF assms(1,2) this] show ?thesis .
qed

lemma mesh_predict:
  assumes "meshEnabled c" and "model s = Some g"
    and "i < length (working_cache h c input t0 t1 s)"
    and "passed c (faces (predict h c input t0 t1 s) ! i)"
  shows "mesh (faces (predict h c input t0 t1 s) ! i) =
     transformRawCoords h
       (if irisOn c
        then augmentIris h
               (snd (execute g (snd (snd (face_crop h c (inputSize s) input
                  (working_cache h c input t0 t1 s ! i))))))
               (snd (snd (face_crop h c (inputSize s) input (working_cache h c input t0 t1 s ! i))))
               c (inputSize s)
        else snd (execute g (snd (snd (face_crop h c (inputSize s) input
                  (working_cache h c input t0 t1 s ! i))))))
       (working_cache h c input t0 t1 s ! i)
       (fst (face_crop h c (inputSize s) input (working_cache h c input t0 t1 s ! i)))
       (fst (snd (face_crop h c (inputSize s) input (working_cache h c input t0 t1 s ! i))))
       (inputSize s)"
proof -
  from predict_nth [OF assms(3)] obtain k e where
    "process_box h c (model s) (inputSize s) input i (working_cache h c input t0 t1 s ! i) =
       (faces (predict h c input t0 t1 s) ! i, processed (predict h c input t0 t1 s) ! i, k, e)"
    by blast
  from process_box_mesh [OF assms(1,2) this assms(4)] show ?thesis .
qed

lemmas echo_defs = echo_helpers_def echo_model_def echo_state_def

lemma sample_run:
  "run (sample_helpers (Fin (9 / 10))) sample_calls =
     \<lparr> current = (loaded_state (1 / 2))\<lparr> boxCache := [mesh_box (sample_helpers (Fin (9 / 10))) [[Fin 100, Fin 50, Fin 192]]],
          skipped := 1, lastTime := 6 \<rparr>,
       reuses = 1, fresh = False, last_config = Some (sample_config 1 True) \<rparr>"
  by (simp add: run_def load_defs predict_defs config_defs sample_defs Let_def)

lemmas eval_defs = predict_defs config_defs sample_defs load_defs working_cache_def Let_def

section \<open>The claims\<close>



text \<open>
  C2, as amended. Take any sequence of calls of \<^verbatim>\<open>load\<close> and predict from the
  initial state, with at least one call of predict, and let \<open>c\<close> be the configuration
  of the last one. Then the number of calls of predict since the detector last ran
  is the counter \<^verbatim>\<open>skipped\<close>, and either the detector ran in that last call, or
  this number is at least 1 and its predecessor is strictly below
  \<^verbatim>\<open>skipFrames\<close>; so it is at most \<^verbatim>\<open>skipFrames\<close> when that is a whole
  number. The claim says strictly below \<^verbatim>\<open>skipFrames\<close>: with
  \<^verbatim>\<open>skipFrames\<close> 1, the second of two calls reuses the cache, which has then
  been reused once.
\<close>

theorem reuse_bounded:
  assumes "last_config (run h cs) = Some c"
  shows "reuses (run h cs) = skipped (current (run h cs))
     \<and> (fresh (run h cs)
        \<or> (0 < reuses (run h cs)
           \<and> num_lt (Fin (real (reuses (run h cs)) - 1)) (skipFramesOf c)
           \<and> (\<forall>n. skipFramesOf c = Fin (real n) \<longrightarrow> reuses (run h cs) \<le> n)))"
proof -
  from run_invariant [of h cs] assms
  have eq: "reuses (run h cs) = skipped (current (run h cs))"
    and alt: "fresh (run h cs)
        \<or> (0 < reuses (run h cs) \<and> num_lt (Fin (real (reuses (run h cs)) - 1)) (skipFramesOf c))"
    by auto
  have "reuses (run h cs) \<le> n"
    if "0 < reuses (run h cs)" "num_lt (Fin (real (reuses (run h cs)) - 1)) (skipFramesOf c)"
      "skipFramesOf c = Fin (real n)" for n
    using that by simp
  with eq alt show ?thesis by blast
qed

theorem reuse_bounded_witness:
  "last_config (run (sample_helpers (Fin (9 / 10))) sample_calls) = Some (sample_config 1 True)
   \<and> \<not> fresh (run (sample_helpers (Fin (9 / 10))) sample_calls)
   \<and> reuses (run (sample_helpers (Fin (9 / 10))) sample_calls) = 1
   \<and> skipped (current (run (sample_helpers (Fin (9 / 10))) sample_calls)) = 1
   \<and> num_lt (Fin (real (reuses (run (sample_helpers (Fin (9 / 10))) sample_calls)) - 1))
        (skipFramesOf (sample_config 1 True))"
  using reuse_bounded [of "sample_helpers (Fin (9 / 10))" sample_calls "sample_config 1 True"]
  by (simp add: sample_run config_defs sample_config_def)

text \<open>
  The claim as it is written fails after the sample calls: the detector did not run in
  the last call, and the cache has been reused once, which is not below 1.
\<close>

theorem reuse_strictly_below_counterexample:
  "last_config (run (sample_helpers (Fin (9 / 10))) sample_calls) = Some (sample_config 1 True)
   \<and> \<not> (fresh (run (sample_helpers (Fin (9 / 10))) sample_calls)
        \<or> num_lt (Fin (real (reuses (run (sample_helpers (Fin (9 / 10))) sample_calls))))
             (skipFramesOf (sample_config 1 True)))"
  by (simp add: sample_run config_defs sample_config_def)

text \<open>
  C3. With the mesh enabled and a model loaded, take a box of the cache for which the
  confidence that the mesh model gives on its crop, rounded to two decimals, is below
  \<^verbatim>\<open>minConfidence\<close>. That rounded confidence is the \<^verbatim>\<open>faceScore\<close> of its
  face, as it is for every box of the cache, and the box is dropped: line 99 writes
  the score to its \<^verbatim>\<open>confidence\<close>, the cache after the call holds the boxes of
  the faces that passed and of no other, and its face has no mesh, no annotations
  and score 0. The mesh model ran once for each box of the cache, and not again.
\<close>

theorem low_confidence_discarded:
  assumes "meshEnabled c" and "model s = Some g"
    and "i < length (working_cache h c input t0 t1 s)"
    and "detector_opt minConfidence c = Some mc"
    and "num_lt (round2 (coord (fst (execute g (snd (snd (face_crop h c (inputSize s) input
              (working_cache h c input t0 t1 s ! i)))))) 0)) mc"
  shows "faceScore (faces (predict h c input t0 t1 s) ! i) =
           round2 (coord (fst (execute g (snd (snd (face_crop h c (inputSize s) input
              (working_cache h c input t0 t1 s ! i)))))) 0)
     \<and> processed (predict h c input t0 t1 s) ! i =
         (working_cache h c input t0 t1 s ! i)
           \<lparr> confidence := round2 (coord (fst (execute g (snd (snd (face_crop h c (inputSize s) input
              (working_cache h c input t0 t1 s ! i)))))) 0) \<rparr>
     \<and> \<not> passed c (faces (predict h c input t0 t1 s) ! i)
     \<and> (\<forall>j < length (working_cache h c input t0 t1 s).
          faceScore (faces (predict h c input t0 t1 s) ! j) =
            round2 (coord (fst (execute g (snd (snd (face_crop h c (inputSize s) input
              (working_cache h c input t0 t1 s ! j)))))) 0))
     \<and> length (faces (predict h c input t0 t1 s)) = length (working_cache h c input t0 t1 s)
     \<and> boxCache (state_after (predict h c input t0 t1 s)) =
         map (\<lambda>f. mesh_box h (mesh f)) (filter (passed c) (faces (predict h c input t0 t1 s)))
     \<and> mesh (faces (predict h c input t0 t1 s) ! i) = []
     \<and> annotations (faces (predict h c input t0 t1 s) ! i) = Map.empty
     \<and> score (faces (predict h c input t0 t1 s) ! i) = Fin 0
     \<and> length (filter (\<lambda>e. e = MeshExecute) (trace (predict h c input t0 t1 s))) =
         length (working_cache h c input t0 t1 s)"
proof -
  let ?r = "predict h c input t0 t1 s"
  let ?cache = "working_cache h c input t0 t1 s"
  from predict_nth [OF assms(3)] obtain k e where pb:
    "process_box h c (model s) (inputSize s) input i (?cache ! i) =
       (faces ?r ! i, processed ?r ! i, k, e)"
    by blast
  note score_i = faceScore_predict [OF assms(1,2,3)]
  have "num_lt (faceScore (faces ?r ! i)) mc"
    using assms(5) by (simp only: score_i)
  from below_minConfidence [OF assms(4) this]
  have low: "\<not> passed c (faces ?r ! i)"
    by (simp add: passed_def)
  note facts = process_box_low(2) [OF assms(1,2) pb low]
  have every: "\<forall>j < length ?cache.
          faceScore (faces ?r ! j) =
            round2 (coord (fst (execute g (snd (snd (face_crop h c (inputSize s) input
              (?cache ! j)))))) 0)"
    using faceScore_predict [OF assms(1,2)] by blast
  have cache: "boxCache (state_after ?r) =
      map (\<lambda>f. mesh_box h (mesh f)) (filter (passed c) (faces ?r))"
    using assms(1,2) by (simp add: boxCache_after_predict)
  have "filter (\<lambda>e. e = MeshExecute) (concat (replicate n [MeshExecute])) = replicate n MeshExecute" for n
    by (induction n) simp_all
  then have runs: "length (filter (\<lambda>e. e = MeshExecute) (trace ?r)) = length ?cache"
    using assms(1,2) by (simp add: trace_predict box_events_def)
  from facts score_i have written: "processed ?r ! i =
      (?cache ! i)\<lparr> confidence := round2 (coord (fst (execute g (snd (snd (face_crop h c (inputSize s) input
              (?cache ! i)))))) 0) \<rparr>"
    by simp
  from score_i written low every faces_length [of h c input t0 t1 s] cache facts runs
  show ?thesis by blast
qed

theorem low_confidence_discarded_witness:
  "meshEnabled (sample_config 1 True)
   \<and> model echo_state = Some echo_model
   \<and> length (working_cache echo_helpers (sample_config 1 True) sample_input 5 6 echo_state) = 2
   \<and> detector_opt minConfidence (sample_config 1 True) = Some (Fin (1 / 5))
   \<and> num_lt (round2 (coord (fst (execute echo_model (snd (snd (face_crop echo_helpers
          (sample_config 1 True) (inputSize echo_state) sample_input
          (working_cache echo_helpers (sample_config 1 True) sample_input 5 6 echo_state ! 1)))))) 0))
        (Fin (1 / 5))
   \<and> map faceScore (faces (predict echo_helpers (sample_config 1 True) sample_input 5 6 echo_state)) =
        [Fin (9 / 10), Fin (1 / 10)]
   \<and> map confidence (processed (predict echo_helpers (sample_config 1 True) sample_input 5 6 echo_state)) =
        [Fin (9 / 10), Fin (1 / 10)]
   \<and> map mesh (faces (predict echo_helpers (sample_config 1 True) sample_input 5 6 echo_state)) =
        [[[Fin 100, Fin 50, Fin 192]], []]
   \<and> map score (faces (predict echo_helpers (sample_config 1 True) sample_input 5 6 echo_state)) =
        [Fin (9 / 10), Fin 0]
   \<and> boxCache (state_after (predict echo_helpers (sample_config 1 True) sample_input 5 6 echo_state)) =
        [mesh_box echo_helpers [[Fin 100, Fin 50, Fin 192]]]
   \<and> trace (predict echo_helpers (sample_config 1 True) sample_input 5 6 echo_state) =
        [DetectorRun, MeshExecute, MeshExecute]"
  using low_confidence_discarded [of "sample_config 1 True" echo_state echo_model 1 echo_helpers
      sample_input 5 6 "Fin (1 / 5)"]
  by (simp add: eval_defs echo_defs)



text \<open>
  C5. The crop of a box is made by \<^verbatim>\<open>correctFaceRotation\<close> exactly when
  \<^verbatim>\<open>detector.rotation\<close> and \<^verbatim>\<open>mesh.enabled\<close> are set and the kernels
  include \<^verbatim>\<open>rotatewithoffset\<close>; otherwise the angle is 0, the matrix is the
  fixed one and the crop is \<^verbatim>\<open>cutBoxFromImageAndResize\<close> of the cached box.
  Each face of predict carries that crop, and a computed mesh comes from
  \<^verbatim>\<open>transformRawCoords\<close> with that angle and that matrix.
\<close>

theorem rotation_correction_iff:
  "face_crop h c isz input b =
     (if rotationOn c \<and> meshEnabled c \<and> ''rotatewithoffset'' \<in> set (kernels h)
      then correctFaceRotation h b input isz
      else (Fin 0, fixedRotationMatrix h,
            cutBoxFromImageAndResize h b input
              (if meshEnabled c then (isz, isz) else (blazeSize h, blazeSize h))))
   \<and> (\<forall>i < length (working_cache h c input t0 t1 s).
        tensor (faces (predict h c input t0 t1 s) ! i) =
          Some (snd (snd (face_crop h c (inputSize s) input (working_cache h c input t0 t1 s ! i))))
        \<and> (\<forall>g. meshEnabled c \<and> model s = Some g \<and> passed c (faces (predict h c input t0 t1 s) ! i) \<longrightarrow>
              (\<exists>raw. mesh (faces (predict h c input t0 t1 s) ! i) =
                 transformRawCoords h raw (working_cache h c input t0 t1 s ! i)
                   (fst (face_crop h c (inputSize s) input (working_cache h c input t0 t1 s ! i)))
                   (fst (snd (face_crop h c (inputSize s) input (working_cache h c input t0 t1 s ! i))))
                   (inputSize s))))"
proof -
  let ?r = "predict h c input t0 t1 s"
  let ?cache = "working_cache h c input t0 t1 s"
  have each: "tensor (faces ?r ! i) = Some (snd (snd (face_crop h c (inputSize s) input (?cache ! i))))
      \<and> (\<forall>g. meshEnabled c \<and> model s = Some g \<and> passed c (faces ?r ! i) \<longrightarrow>
              (\<exists>raw. mesh (faces ?r ! i) =
                 transformRawCoords h raw (?cache ! i)
                   (fst (face_crop h c (inputSize s) input (?cache ! i)))
                   (fst (snd (face_crop h c (inputSize s) input (?cache ! i))))
                   (inputSize s)))"
    if "i < length ?cache" for i
  proof -
    from predict_nth [OF that] obtain k e where pb:
      "process_box h c (model s) (inputSize s) input i (?cache ! i) =
         (faces ?r ! i, processed ?r ! i, k, e)"
      by blast
    from process_box_face [OF pb] have t: "tensor (faces ?r ! i) =
        Some (snd (snd (face_crop h c (inputSize s) input (?cache ! i))))"
      by simp
    have "\<exists>raw. mesh (faces ?r ! i) =
                 transformRawCoords h raw (?cache ! i)
                   (fst (face_crop h c (inputSize s) input (?cache ! i)))
                   (fst (snd (face_crop h c (inputSize s) input (?cache ! i))))
                   (inputSize s)"
      if "meshEnabled c" "model s = Some g" "passed c (faces ?r ! i)" for g
      using process_box_mesh [OF that(1,2) pb that(3)] by blast
    with t show ?thesis by blast
  qed
  have crop: "face_crop h c isz input b =
     (if rotationOn c \<and> meshEnabled c \<and> ''rotatewithoffset'' \<in> set (kernels h)
      then correctFaceRotation h b input isz
      else (Fin 0, fixedRotationMatrix h,
            cutBoxFromImageAndResize h b input
              (if meshEnabled c then (isz, isz) else (blazeSize h, blazeSize h))))"
    by (simp add: face_crop_def rotate_crop_def)
  from crop each show ?thesis by blast
qed

theorem rotation_correction_iff_witness:
  "0 < length (working_cache rotating_helpers rotating_config sample_input 5 6 (loaded_state 1))
   \<and> face_crop rotating_helpers rotating_config (Fin 192) sample_input (sample_box (Fin 1)) =
       (Fin 1, [[Fin 0]], sample_input)
   \<and> tensor (faces (predict rotating_helpers rotating_config sample_input 5 6 (loaded_state 1)) ! 0) =
       Some sample_input
   \<and> face_crop (sample_helpers (Fin 1)) rotating_config (Fin 192) sample_input (sample_box (Fin 1)) =
       (Fin 0, fixedRotationMatrix (sample_helpers (Fin 1)), sample_input\<lparr> shape := [1, 2, 2, 3] \<rparr>)"
  using rotation_correction_iff [of rotating_helpers rotating_config "Fin 192" sample_input
      "sample_box (Fin 1)" 5 6 "loaded_state 1"]
    rotation_correction_iff [of "sample_helpers (Fin 1)" rotating_config "Fin 192" sample_input
      "sample_box (Fin 1)" 5 6 "loaded_state 1"]
  by (simp add: eval_defs)

text \<open>
  C6. A box that a run of the detector puts in the cache is the detector's box, scaled
  by the detector's scale factor, enlarged by the square root of 1.6 and squarified.
  A box of the cache after a call is the bounding box of the mesh of one of the
  call's faces, enlarged by 1.6 and squarified. What the four helpers compute is
  outside this file; the theorem is about which of them are applied, in which order
  and with which factor.
\<close>

theorem cached_boxes_derivation:
  "(DetectorRun \<in> set (trace (predict h c input t0 t1 s)) \<longrightarrow>
      working_cache h c input t0 t1 s =
        map (\<lambda>b. squarifyBox h (enlargeBox h (scaleBoxCoordinates h b (snd (getBoxes h input c)))
                    (Fin (sqrt (16 / 10)))))
          (fst (getBoxes h input c)))
   \<and> (\<forall>b \<in> set (boxCache (state_after (predict h c input t0 t1 s))).
        \<exists>f \<in> set (faces (predict h c input t0 t1 s)).
          b = squarifyBox h (enlargeBox h (calculateLandmarksBoundingBox h (mesh f)) (Fin (16 / 10))))"
proof -
  have "cache_entry h sf = (\<lambda>b. squarifyBox h (enlargeBox h (scaleBoxCoordinates h b sf)
                    (Fin (sqrt (16 / 10)))))" for sf
    by (rule ext) (simp add: cache_entry_def enlargeFact_def)
  moreover have "mesh_box h m =
      squarifyBox h (enlargeBox h (calculateLandmarksBoundingBox h m) (Fin (16 / 10)))" for m
    by (simp add: mesh_box_def enlargeFact_def)
  ultimately show ?thesis
    by (auto simp: trace_predict_detector working_cache_due boxCache_after_predict)
qed

theorem cached_boxes_derivation_witness:
  "DetectorRun \<in> set (trace (predict (sample_helpers (Fin (9 / 10))) (sample_config 1 True)
       sample_input 5 6 (loaded_state (1 / 2))))
   \<and> working_cache (sample_helpers (Fin (9 / 10))) (sample_config 1 True) sample_input 5 6
        (loaded_state (1 / 2)) = [sample_box (Fin (9 / 10))]
   \<and> boxCache (state_after (predict (sample_helpers (Fin (9 / 10))) (sample_config 1 True)
       sample_input 5 6 (loaded_state (1 / 2)))) =
       [\<lparr> startPoint = [Fin 1, Fin 2], endPoint = [Fin 1, Fin 2],
          landmarks = [[Fin 100, Fin 50, Fin 192]], confidence = NaN \<rparr>]"
  using cached_boxes_derivation [of "sample_helpers (Fin (9 / 10))" "sample_config 1 True"
      sample_input 5 6 "loaded_state (1 / 2)"]
  by (simp add: eval_defs)

text \<open>
  C7. For every face that predict returns, each point of \<^verbatim>\<open>meshRaw\<close> is the
  point of \<^verbatim>\<open>mesh\<close> at the same place with x divided by
  \<^verbatim>\<open>input.shape[2]\<close>, y divided by \<^verbatim>\<open>input.shape[1]\<close> and z, taken as 0
  when it is absent, divided by \<^verbatim>\<open>inputSize\<close>. The division is JavaScript's:
  by 0 it gives an infinity or NaN. As on lines 87 and 103, an entry of the shape that
  is absent counts as 0, and so does a z that is NaN.
\<close>

theorem meshRaw_normalised:
  "\<forall>f \<in> set (faces (predict h c input t0 t1 s)).
     meshRaw f =
       map (\<lambda>pt. [num_div (coord pt 0) (shape_or0 input 2),
                  num_div (coord pt 1) (shape_or0 input 1),
                  num_div (or_num (coord pt 2) (Fin 0)) (inputSize s)])
         (mesh f)"
proof
  fix f assume "f \<in> set (faces (predict h c input t0 t1 s))"
  from faces_in_set [OF this] obtain j b b' k e
    where "process_box h c (model s) (inputSize s) input j b = (f, b', k, e)"
    by blast
  from process_box_face [OF this] show "meshRaw f =
       map (\<lambda>pt. [num_div (coord pt 0) (shape_or0 input 2),
                  num_div (coord pt 1) (shape_or0 input 1),
                  num_div (or_num (coord pt 2) (Fin 0)) (inputSize s)])
         (mesh f)"
    by (simp add: raw_point_def)
qed

theorem meshRaw_normalised_witness:
  "faces (predict (sample_helpers (Fin (9 / 10))) (sample_config 1 True)
       sample_input 5 6 (loaded_state (1 / 2))) \<noteq> []
   \<and> mesh (hd (faces (predict (sample_helpers (Fin (9 / 10))) (sample_config 1 True)
       sample_input 5 6 (loaded_state (1 / 2))))) = [[Fin 100, Fin 50, Fin 192]]
   \<and> meshRaw (hd (faces (predict (sample_helpers (Fin (9 / 10))) (sample_config 1 True)
       sample_input 5 6 (loaded_state (1 / 2))))) = [[Fin (1 / 2), Fin (1 / 2), Fin 1]]
   \<and> meshRaw (hd (faces (predict (sample_helpers (Fin (9 / 10))) (sample_config 1 False)
       sample_input 5 6 init_state))) = [[Fin (13 / 128), Fin (99 / 320), NaN]]"
  using meshRaw_normalised [of "sample_helpers (Fin (9 / 10))" "sample_config 1 True"
      sample_input 5 6 "loaded_state (1 / 2)"]
    meshRaw_normalised [of "sample_helpers (Fin (9 / 10))" "sample_config 1 False"
      sample_input 5 6 init_state]
  by (simp add: eval_defs)

text \<open>
  C8, as amended. When \<^verbatim>\<open>tf.loadGraphModel\<close> gives null or a model without
  \<^verbatim>\<open>modelUrl\<close>, load logs \<^verbatim>\<open>load model failed:\<close>. When predict is called
  with the mesh enabled and no model loaded, it logs the condition once for each box
  of the cache if \<^verbatim>\<open>config.debug\<close> is set, and returns one face for each box,
  without mesh, annotations or scores. In every other case predict logs nothing, a
  confidence below the threshold included. In one call the detector runs at most
  once and the mesh model at most once for each box. Whether load raises is left
  out of this statement.
\<close>

theorem logging_only:
  "((initial \<or> model s = None)
      \<and> lg (jn (modelBasePath c) (case meshModelPath c of None \<Rightarrow> [] | Some p \<Rightarrow> p)) = Gives m
      \<and> (case m of None \<Rightarrow> True | Some g \<Rightarrow> \<not> url_ok g) \<longrightarrow>
      Log [''load model failed:'', show_opt (meshModelPath c)] \<in> set (load_trace (load initial lg jn c s)))
   \<and> (meshEnabled c \<and> model s = None \<longrightarrow>
        trace (predict h c input t0 t1 s) =
          (if detector_due c s t0 then [DetectorRun] else [])
          @ (if debug c
             then replicate (length (working_cache h c input t0 t1 s))
                    (Log [''face mesh detection requested, but model is not loaded''])
             else [])
        \<and> length (faces (predict h c input t0 t1 s)) = length (working_cache h c input t0 t1 s)
        \<and> (\<forall>f \<in> set (faces (predict h c input t0 t1 s)).
              mesh f = [] \<and> meshRaw f = [] \<and> annotations f = Map.empty
              \<and> score f = Fin 0 \<and> faceScore f = Fin 0))
   \<and> (\<not> meshEnabled c \<or> model s \<noteq> None \<longrightarrow>
        (\<forall>e \<in> set (trace (predict h c input t0 t1 s)). e = DetectorRun \<or> e = MeshExecute))
   \<and> length (filter (\<lambda>e. e = DetectorRun) (trace (predict h c input t0 t1 s))) \<le> 1
   \<and> length (filter (\<lambda>e. e = MeshExecute) (trace (predict h c input t0 t1 s)))
        \<le> length (working_cache h c input t0 t1 s)"
proof -
  let ?r = "predict h c input t0 t1 s"
  let ?n = "length (working_cache h c input t0 t1 s)"
  let ?msg = "Log [''face mesh detection requested, but model is not loaded'']"
  have a: "Log [''load model failed:'', show_opt (meshModelPath c)] \<in> set (load_trace (load initial lg jn c s))"
    if "initial \<or> model s = None"
      "lg (jn (modelBasePath c) (case meshModelPath c of None \<Rightarrow> [] | Some p \<Rightarrow> p)) = Gives m"
      "case m of None \<Rightarrow> True | Some g \<Rightarrow> \<not> url_ok g"
  proof -
    have tr: "load_trace (finish_load s' ev) = ev" for s' ev
      by (simp add: finish_load_def split: sum.splits)
    from that(1) have "model (if initial then s\<lparr> model := None \<rparr> else s) = None"
      by auto
    with that(2,3) show ?thesis
      by (auto simp: load_def Let_def tr split: option.splits)
  qed
  have rep: "concat (replicate n [x]) = replicate n x" for n and x :: event
    by (induction n) simp_all
  have b1: "trace ?r = (if detector_due c s t0 then [DetectorRun] else [])
          @ (if debug c then replicate ?n ?msg else [])"
    if "meshEnabled c" "model s = None"
    using that by (simp add: trace_predict box_events_def rep)
  have b2: "mesh f = [] \<and> meshRaw f = [] \<and> annotations f = Map.empty
              \<and> score f = Fin 0 \<and> faceScore f = Fin 0"
    if "meshEnabled c" "model s = None" "f \<in> set (faces ?r)" for f
  proof -
    from faces_in_set [OF that(3)] obtain j b b' k e
      where "process_box h c (model s) (inputSize s) input j b = (f, b', k, e)"
      by blast
    with that(1,2) show ?thesis
      by (auto simp: process_box_def Let_def init_face_def split: prod.splits)
  qed
  have c: "e = DetectorRun \<or> e = MeshExecute"
    if "\<not> meshEnabled c \<or> model s \<noteq> None" "e \<in> set (trace ?r)" for e
    using that by (auto simp: trace_predict box_events_def split: if_splits option.splits)
  have d1: "length (filter (\<lambda>e. e = DetectorRun) (trace ?r)) \<le> 1"
    by (cases "model s") (simp_all add: trace_predict box_events_def rep)
  have d2: "length (filter (\<lambda>e. e = MeshExecute) (trace ?r)) \<le> ?n"
    by (cases "model s") (simp_all add: trace_predict box_events_def rep)
  from a b1 b2 c d1 d2 faces_length [of h c input t0 t1 s] show ?thesis
    by blast
qed

theorem logging_only_witness:
  "Log [''load model failed:'', ''facemesh.json'']
     \<in> set (load_trace (load True (\<lambda>u. Gives None) (@) (sample_config 1 True) init_state))
   \<and> meshEnabled (sample_config 1 True) \<and> model init_state = None
   \<and> trace (predict (sample_helpers (Fin (9 / 10))) (sample_config 1 True) sample_input 5 6 init_state) =
       [DetectorRun, Log [''face mesh detection requested, but model is not loaded'']]
   \<and> mesh (hd (faces (predict (sample_helpers (Fin (9 / 10))) (sample_config 1 True)
        sample_input 5 6 init_state))) = []
   \<and> trace (predict (sample_helpers (Fin (9 / 10))) (sample_config 1 True) sample_input 5 6
        (loaded_state (1 / 10))) = [DetectorRun, MeshExecute]"
  using logging_only [of True init_state "\<lambda>u. Gives None" "(@)" "sample_config 1 True" None
      "sample_helpers (Fin (9 / 10))" sample_input 5 6]
    logging_only [of True "loaded_state (1 / 10)" "\<lambda>u. Gives None" "(@)" "sample_config 1 True" None
      "sample_helpers (Fin (9 / 10))" sample_input 5 6]
  by (simp add: eval_defs)

text \<open>
  The claim as it is written fails in three places. When \<^verbatim>\<open>tf.loadGraphModel\<close>
  gives null, load logs the failure and then line 133 reads \<^verbatim>\<open>model.inputs\<close> of
  null, a TypeError. When it rejects, load rejects too and logs nothing. And predict
  on a box whose mesh confidence 0.1 is below the threshold 0.2 logs nothing, with
  \<^verbatim>\<open>config.debug\<close> set.
\<close>

theorem logging_only_counterexample:
  "load_trace (load True (\<lambda>u. Gives None) (@) (sample_config 1 True) init_state) =
     [Log [''load model failed:'', ''facemesh.json'']]
   \<and> load_result (load True (\<lambda>u. Gives None) (@) (sample_config 1 True) init_state) = Inl TypeError
   \<and> load_result (load True (\<lambda>u. Rejects) (@) (sample_config 1 True) init_state) = Inl LoadRejected
   \<and> load_trace (load True (\<lambda>u. Rejects) (@) (sample_config 1 True) init_state) = []
   \<and> num_lt (faceScore (hd (faces (predict (sample_helpers (Fin (9 / 10))) (sample_config 1 True)
        sample_input 5 6 (loaded_state (1 / 10)))))) (Fin (1 / 5))
   \<and> debug (sample_config 1 True)
   \<and> trace (predict (sample_helpers (Fin (9 / 10))) (sample_config 1 True) sample_input 5 6
        (loaded_state (1 / 10))) = [DetectorRun, MeshExecute]"
  by (simp add: eval_defs)

text \<open>
  C9. After every call of predict the cache holds, in order, the boxes around the
  meshes of the faces that passed the threshold in that call, and nothing else. There
  is one face for each box that the loop went through; with the mesh enabled and a
  model loaded its \<^verbatim>\<open>faceScore\<close> is the rounded confidence that the model gives
  on the crop of that box, it passed exactly when that is not below the threshold of
  line 98, and its mesh is then the one \<^verbatim>\<open>transformRawCoords\<close> gives. When
  the mesh is disabled or no model is loaded the cache is empty after the call, and
  the detector runs in the next call of predict, also after a call of load in
  between, whatever the configuration and the times of that call.
\<close>

theorem cache_holds_passing_boxes:
  "boxCache (state_after (predict h c input t0 t1 s)) =
     (if meshEnabled c \<and> model s \<noteq> None
      then map (\<lambda>f. mesh_box h (mesh f)) (filter (passed c) (faces (predict h c input t0 t1 s)))
      else [])
   \<and> length (faces (predict h c input t0 t1 s)) = length (working_cache h c input t0 t1 s)
   \<and> (\<forall>g. meshEnabled c \<and> model s = Some g \<longrightarrow>
        (\<forall>i < length (working_cache h c input t0 t1 s).
           faceScore (faces (predict h c input t0 t1 s) ! i) =
             round2 (coord (fst (execute g (snd (snd (face_crop h c (inputSize s) input
               (working_cache h c input t0 t1 s ! i)))))) 0)
           \<and> passed c (faces (predict h c input t0 t1 s) ! i) =
               (\<not> num_lt (round2 (coord (fst (execute g (snd (snd (face_crop h c (inputSize s) input
                      (working_cache h c input t0 t1 s ! i)))))) 0))
                    (minConfidenceOf c))
           \<and> (passed c (faces (predict h c input t0 t1 s) ! i) \<longrightarrow>
                mesh (faces (predict h c input t0 t1 s) ! i) =
                  transformRawCoords h
                    (if irisOn c
                     then augmentIris h
                            (snd (execute g (snd (snd (face_crop h c (inputSize s) input
                               (working_cache h c input t0 t1 s ! i))))))
                            (snd (snd (face_crop h c (inputSize s) input
                               (working_cache h c input t0 t1 s ! i))))
                            c (inputSize s)
                     else snd (execute g (snd (snd (face_crop h c (inputSize s) input
                               (working_cache h c input t0 t1 s ! i))))))
                    (working_cache h c input t0 t1 s ! i)
                    (fst (face_crop h c (inputSize s) input (working_cache h c input t0 t1 s ! i)))
                    (fst (snd (face_crop h c (inputSize s) input (working_cache h c input t0 t1 s ! i))))
                    (inputSize s))))
   \<and> (\<not> meshEnabled c \<or> model s = None \<longrightarrow>
        boxCache (state_after (predict h c input t0 t1 s)) = []
        \<and> DetectorRun \<in> set (trace (predict h' c' input' u0 u1 (state_after (predict h c input t0 t1 s))))
        \<and> DetectorRun \<in> set (trace (predict h' c' input' u0 u1
              (load_state (load initial lg jn c'' (state_after (predict h c input t0 t1 s)))))))"
proof -
  let ?r = "predict h c input t0 t1 s"
  let ?cache = "working_cache h c input t0 t1 s"
  have a: "boxCache (state_after ?r) =
     (if meshEnabled c \<and> model s \<noteq> None
      then map (\<lambda>f. mesh_box h (mesh f)) (filter (passed c) (faces ?r)) else [])"
    by (rule boxCache_after_predict)
  have b: "length (faces ?r) = length ?cache"
    by (rule faces_length)
  have d: "boxCache (state_after ?r) = []
        \<and> DetectorRun \<in> set (trace (predict h' c' input' u0 u1 (state_after ?r)))
        \<and> DetectorRun \<in> set (trace (predict h' c' input' u0 u1
              (load_state (load initial lg jn c'' (state_after ?r)))))"
    if "\<not> meshEnabled c \<or> model s = None"
    using that
    by (auto simp: boxCache_after_predict trace_predict_detector detector_due_def load_keeps_cache)
  have e: "faceScore (faces ?r ! i) =
             round2 (coord (fst (execute g (snd (snd (face_crop h c (inputSize s) input
               (?cache ! i)))))) 0)
           \<and> passed c (faces ?r ! i) =
               (\<not> num_lt (round2 (coord (fst (execute g (snd (snd (face_crop h c (inputSize s) input
                      (?cache ! i)))))) 0))
                    (minConfidenceOf c))
           \<and> (passed c (faces ?r ! i) \<longrightarrow>
                mesh (faces ?r ! i) =
                  transformRawCoords h
                    (if irisOn c
                     then augmentIris h
                            (snd (execute g (snd (snd (face_crop h c (inputSize s) input (?cache ! i))))))
                            (snd (snd (face_crop h c (inputSize s) input (?cache ! i))))
                            c (inputSize s)
                     else snd (execute g (snd (snd (face_crop h c (inputSize s) input (?cache ! i))))))
                    (?cache ! i)
                    (fst (face_crop h c (inputSize s) input (?cache ! i)))
                    (fst (snd (face_crop h c (inputSize s) input (?cache ! i))))
                    (inputSize s))"
    if "meshEnabled c" "model s = Some g" "i < length ?cache" for g i
    using faceScore_predict [OF that] mesh_predict [OF that]
    by (simp add: passed_def)
  from a b d e show ?thesis by blast
qed

theorem cache_holds_passing_boxes_witness:
  "\<not> meshEnabled (sample_config 1 False)
   \<and> boxCache (state_after (predict (sample_helpers (Fin (9 / 10))) (sample_config 1 False)
         sample_input 5 6 (loaded_state (1 / 2)))) = []
   \<and> \<not> num_le (skipTimeOf (sample_config 1 False)) (Fin (7 - 6))
   \<and> DetectorRun \<in> set (trace (predict (sample_helpers (Fin (9 / 10))) (sample_config 1 False)
         sample_input 7 8
         (state_after (predict (sample_helpers (Fin (9 / 10))) (sample_config 1 False)
            sample_input 5 6 (loaded_state (1 / 2))))))
   \<and> meshEnabled (sample_config 1 True) \<and> model echo_state = Some echo_model
   \<and> length (working_cache echo_helpers (sample_config 1 True) sample_input 5 6 echo_state) = 2
   \<and> map faceScore (faces (predict echo_helpers (sample_config 1 True) sample_input 5 6 echo_state)) =
        [Fin (9 / 10), Fin (1 / 10)]
   \<and> map (passed (sample_config 1 True))
        (faces (predict echo_helpers (sample_config 1 True) sample_input 5 6 echo_state)) = [True, False]
   \<and> boxCache (state_after (predict echo_helpers (sample_config 1 True) sample_input 5 6 echo_state)) =
        [mesh_box echo_helpers [[Fin 100, Fin 50, Fin 192]]]"
  using cache_holds_passing_boxes [where h = "sample_helpers (Fin (9 / 10))"
      and c = "sample_config 1 False" and input = sample_input and ?t0.0 = 5 and ?t1.0 = 6
      and s = "loaded_state (1 / 2)" and h' = "sample_helpers (Fin (9 / 10))"
      and c' = "sample_config 1 False" and input' = sample_input and ?u0.0 = 7 and ?u1.0 = 8]
    cache_holds_passing_boxes [where h = echo_helpers
      and c = "sample_config 1 True" and input = sample_input and ?t0.0 = 5 and ?t1.0 = 6
      and s = echo_state]
  by (simp add: eval_defs echo_defs)

text \<open>
  C10, as amended. predict returns one face for each box of the cache that the loop
  goes through, in the order of the cache, with ids 0, 1, ... and with
  \<^verbatim>\<open>boxScore\<close> equal to \<^verbatim>\<open>Math.round(100 * confidence) / 100\<close> for the
  confidence of its box, except that with the mesh disabled a confidence that is NaN
  gives \<^verbatim>\<open>boxScore\<close> 0 (line 81).
\<close>

theorem one_face_per_box:
  "length (faces (predict h c input t0 t1 s)) = length (working_cache h c input t0 t1 s)
   \<and> map face_id (faces (predict h c input t0 t1 s)) = [0..<length (working_cache h c input t0 t1 s)]
   \<and> (\<forall>i < length (working_cache h c input t0 t1 s).
        boxScore (faces (predict h c input t0 t1 s) ! i) =
          (if \<not> meshEnabled c \<and> confidence (working_cache h c input t0 t1 s ! i) = NaN
           then Fin 0
           else round2 (confidence (working_cache h c input t0 t1 s ! i))))"
proof -
  let ?r = "predict h c input t0 t1 s"
  let ?cache = "working_cache h c input t0 t1 s"
  have len: "length (faces ?r) = length ?cache"
    by (rule faces_length)
  have each: "face_id (faces ?r ! i) = i
      \<and> boxScore (faces ?r ! i) =
          (if meshEnabled c then round2 (confidence (?cache ! i))
           else round2_or0 (confidence (?cache ! i)))"
    if "i < length ?cache" for i
  proof -
    from predict_nth [OF that] obtain k e where
      "process_box h c (model s) (inputSize s) input i (?cache ! i) =
         (faces ?r ! i, processed ?r ! i, k, e)"
      by blast
    from process_box_face [OF this] show ?thesis by simp
  qed
  have ids: "map face_id (faces ?r) = [0..<length ?cache]"
    by (rule nth_equalityI) (simp_all add: len each)
  from len ids each show ?thesis
    by (simp add: round2_or0_eq)
qed

theorem one_face_per_box_witness:
  "length (faces (predict (sample_helpers (Fin (9 / 10))) (sample_config 1 True)
       sample_input 5 6 (loaded_state (1 / 2)))) = 1
   \<and> 0 < length (working_cache (sample_helpers (Fin (9 / 10))) (sample_config 1 True)
       sample_input 5 6 (loaded_state (1 / 2)))
   \<and> map face_id (faces (predict (sample_helpers (Fin (9 / 10))) (sample_config 1 True)
       sample_input 5 6 (loaded_state (1 / 2)))) = [0]
   \<and> boxScore (faces (predict (sample_helpers (Fin (9 / 10))) (sample_config 1 True)
       sample_input 5 6 (loaded_state (1 / 2))) ! 0) = Fin (9 / 10)"
  using one_face_per_box [of "sample_helpers (Fin (9 / 10))" "sample_config 1 True"
      sample_input 5 6 "loaded_state (1 / 2)"]
  by (simp add: eval_defs)

text \<open>
  The claim as it is written fails for a detector box with confidence NaN when the mesh
  is disabled: \<^verbatim>\<open>boxScore\<close> is 0, and \<^verbatim>\<open>Math.round(100 * NaN) / 100\<close> is NaN.
\<close>

theorem boxScore_counterexample:
  "working_cache (sample_helpers NaN) (sample_config 1 False) sample_input 5 6 init_state =
     [sample_box NaN]
   \<and> boxScore (faces (predict (sample_helpers NaN) (sample_config 1 False)
       sample_input 5 6 init_state) ! 0) = Fin 0
   \<and> round2 (confidence (working_cache (sample_helpers NaN) (sample_config 1 False)
       sample_input 5 6 init_state ! 0)) = NaN
   \<and> boxScore (faces (predict (sample_helpers NaN) (sample_config 1 False)
       sample_input 5 6 init_state) ! 0)
      \<noteq> round2 (confidence (working_cache (sample_helpers NaN) (sample_config 1 False)
           sample_input 5 6 init_state ! 0))"
  by (simp add: eval_defs)

end
